theory Spec2Isabelle
  imports Complex_Main "HOL-Library.AList"
begin

unbundle bit_operations_syntax

section \<open>Platform: what the sources import but do not define\<close>

text \<open>
  \<^verbatim>\<open>vehicle/vehicle_control.py\<close> and \<^verbatim>\<open>tasks/button_docking.py\<close> import the enums
  \<^verbatim>\<open>InputChannel\<close> and \<^verbatim>\<open>Relay\<close> from \<^verbatim>\<open>vehicle/constants.py\<close>, talk to a pymavlink
  link and compute with Python floats. The six members of \<^verbatim>\<open>InputChannel\<close> are the ones
  the sources name; their \<^verbatim>\<open>.value\<close>, the members of \<^verbatim>\<open>Relay\<close> and the link's
  \<^verbatim>\<open>mode_mapping()\<close> are not in the sources and are parameters of the model.

  A Python float is modelled as a real number and every float operation as the exact
  operation followed by the platform's rounding \<open>fl\<close>; \<^verbatim>\<open>math.log\<close> is the
  parameter \<open>flog\<close>. Nothing below depends on how \<open>fl\<close> rounds beyond the two
  properties of IEEE rounding collected in \<open>float_rounding\<close>: it is monotone, and exact
  on the integers up to \<open>2 ^ 53\<close>. An integer where the code expects a float (the zeros
  of \<open>stop_thrusters\<close>) is taken as that float. Infinities and NaN are not modelled.

  The link is taken to know its vehicle, so that \<^verbatim>\<open>mode_mapping()\<close> is a dict. Logging
  and printing are left out.
\<close>

datatype InputChannel = FORWARD | LATERAL | THROTTLE | YAW | PITCH | ROLL

type_synonym Relay = int \<comment> \<open>a member of the enum, named by its \<^verbatim>\<open>.value\<close>\<close>

record platform =
  channel_value :: "InputChannel \<Rightarrow> int"  \<comment> \<open>\<^verbatim>\<open>channel.value\<close>\<close>
  Relay_members :: "Relay list"  \<comment> \<open>the members of \<^verbatim>\<open>Relay\<close>, in iteration order\<close>
  mode_mapping :: "(string \<times> int) list"  \<comment> \<open>\<^verbatim>\<open>self.link.mode_mapping()\<close>\<close>
  fl :: "real \<Rightarrow> real"  \<comment> \<open>rounding of an exact result to a float\<close>
  flog :: "real \<Rightarrow> real"  \<comment> \<open>\<^verbatim>\<open>math.log\<close> on a positive float\<close>

definition float_rounding :: "(real \<Rightarrow> real) \<Rightarrow> bool" where
  "float_rounding f =
     ((\<forall>x y. x \<le> y \<longrightarrow> f x \<le> f y) \<and>
      (\<forall>k::int. \<bar>k\<bar> \<le> 2 ^ 53 \<longrightarrow> f (of_int k) = of_int k))"

definition fadd :: "platform \<Rightarrow> real \<Rightarrow> real \<Rightarrow> real" where
  "fadd e x y = fl e (x + y)"

definition fsub :: "platform \<Rightarrow> real \<Rightarrow> real \<Rightarrow> real" where
  "fsub e x y = fl e (x - y)"

definition fmul :: "platform \<Rightarrow> real \<Rightarrow> real \<Rightarrow> real" where
  "fmul e x y = fl e (x * y)"

definition fdiv :: "platform \<Rightarrow> real \<Rightarrow> real \<Rightarrow> real" where
  "fdiv e x y = fl e (x / y)"

text \<open>Python's \<^verbatim>\<open>round(x)\<close> on a float: the nearest integer, a tie going to the even one.\<close>

definition py_round :: "real \<Rightarrow> int" where
  "py_round x =
     (let f = \<lfloor>x\<rfloor>; d = x - of_int f in
      if d < 1 / 2 then f
      else if 1 / 2 < d then f + 1
      else if even f then f else f + 1)"

text \<open>Python's \<^verbatim>\<open>int(x)\<close> on a float: truncation towards zero.\<close>

definition py_int :: "real \<Rightarrow> int" where
  "py_int x = (if 0 \<le> x then \<lfloor>x\<rfloor> else \<lceil>x\<rceil>)"

text \<open>
  The exceptions the modelled code raises. The three \<^verbatim>\<open>ValueError\<close>s of
  \<^verbatim>\<open>vehicle_control.py\<close> are told apart by their message: \<open>ChannelIdValueError\<close> is
  "Channel id does not exist", \<open>PwmValueError\<close> is "PWM values must be between 1100 and
  1900", \<open>InputValueError\<close> is "Inputs must be between -1 and 1".
\<close>

datatype error =
    ChannelIdValueError int
  | PwmValueError int
  | InputValueError real
  | MathDomainValueError
  | ZeroDivisionError
  | TypeError string  \<comment> \<open>the operator applied to \<^verbatim>\<open>None\<close>\<close>

section \<open>vehicle/vehicle_control.py\<close>

text \<open>
  What a \<^verbatim>\<open>VehicleControl\<close> hands to its collaborators, recorded in program order:
  the Qt signals it emits, the calls it makes on the MAVLink link, and the relay tasks it
  starts on its thread pool (\<open>relay_task r s\<close> is the task that sends the two bytes
  \<^verbatim>\<open>[relay.value, int(state)]\<close>).
\<close>

datatype effect =
    connected_signal_emit
  | disconnected_signal_emit
  | armed_signal_emit
  | disarmed_signal_emit
  | mode_signal_emit "string option"
  | depth_update_signal_emit real
  | rc_channels_override_send "int list"
  | arducopter_arm
  | arducopter_disarm
  | link_set_mode int
  | relay_task Relay bool

text \<open>
  The fields of \<^verbatim>\<open>VehicleControl.__init__\<close> that the modelled methods read or write
  (the camera map is left out), and \<open>effects\<close>, the record of the above.
\<close>

record VehicleControl =
  last_msg_time :: "real option"
  connected :: bool
  armed :: bool
  mode_id :: "int option"
  mode :: "string option"
  effects :: "effect list"

definition VehicleControl_init :: VehicleControl where
  "VehicleControl_init =
     \<lparr>last_msg_time = None, connected = False, armed = False,
      mode_id = None, mode = None, effects = []\<rparr>"

definition emit :: "effect \<Rightarrow> VehicleControl \<Rightarrow> VehicleControl" where
  "emit x self = self\<lparr>effects := effects self @ [x]\<rparr>"

definition TIMEOUT :: real where
  "TIMEOUT = 2"

definition is_connected :: "VehicleControl \<Rightarrow> bool" where
  "is_connected self = connected self"

definition is_armed :: "VehicleControl \<Rightarrow> bool" where
  "is_armed self = armed self"

text \<open>
  A method that can raise returns the object as the call left it and the exception, if
  any: \<open>(self', None)\<close> is a normal return.
\<close>

subsection \<open>set_rc_input_pwms\<close>

text \<open>
  A Python dict is an association list in insertion order with distinct keys. The loop
  over \<^verbatim>\<open>pwms.items()\<close> fills the local 18-slot list, or raises at the first bad entry.
\<close>

fun fill_rc_channel_values :: "(int \<times> int) list \<Rightarrow> int list \<Rightarrow> error + int list" where
  "fill_rc_channel_values [] rc_channel_values = Inr rc_channel_values"
| "fill_rc_channel_values ((channel_id, pwm) # rest) rc_channel_values =
     (if channel_id < 1 \<or> channel_id > 18 then Inl (ChannelIdValueError channel_id)
      else if \<not> (1100 \<le> pwm \<and> pwm \<le> 1900) then Inl (PwmValueError pwm)
      else fill_rc_channel_values rest (rc_channel_values[nat (channel_id - 1) := pwm]))"

definition set_rc_input_pwms ::
  "VehicleControl \<Rightarrow> (int \<times> int) list \<Rightarrow> VehicleControl \<times> error option" where
  "set_rc_input_pwms self pwms =
     (if \<not> is_connected self \<or> \<not> is_armed self then (self, None)
      else
        case fill_rc_channel_values pwms (replicate 18 65535) of
          Inl err \<Rightarrow> (self, Some err)
        | Inr rc_channel_values \<Rightarrow>
            (emit (rc_channels_override_send rc_channel_values) self, None))"

subsection \<open>set_rc_inputs\<close>

text \<open>Lines 137 and 138: the command of one value, rounded and then clamped.\<close>

definition input_pwm :: "platform \<Rightarrow> real \<Rightarrow> int" where
  "input_pwm e val =
     (let pwm = py_round (fadd e (fmul e val 400) 1500);
          pwm = min (max pwm 1100) 1900
      in pwm)"

fun input_pwms ::
  "platform \<Rightarrow> (InputChannel \<times> real) list \<Rightarrow> (int \<times> int) list \<Rightarrow> error + (int \<times> int) list" where
  "input_pwms e [] pwms = Inr pwms"
| "input_pwms e ((channel, val) # rest) pwms =
     (if \<not> (-1 \<le> val \<and> val \<le> 1) then Inl (InputValueError val)
      else input_pwms e rest (AList.update (channel_value e channel) (input_pwm e val) pwms))"

definition set_rc_inputs ::
  "platform \<Rightarrow> VehicleControl \<Rightarrow> (InputChannel \<times> real) list \<Rightarrow> VehicleControl \<times> error option" where
  "set_rc_inputs e self vals =
     (case input_pwms e vals [] of
        Inl err \<Rightarrow> (self, Some err)
      | Inr pwms \<Rightarrow> set_rc_input_pwms self pwms)"

definition stop_thrusters :: "platform \<Rightarrow> VehicleControl \<Rightarrow> VehicleControl \<times> error option" where
  "stop_thrusters e self =
     set_rc_inputs e self
       [(FORWARD, 0), (LATERAL, 0), (THROTTLE, 0), (YAW, 0), (PITCH, 0), (ROLL, 0)]"

subsection \<open>set_mode, set_relay, turn_off_relays, arm, disarm\<close>

definition set_mode :: "platform \<Rightarrow> VehicleControl \<Rightarrow> string \<Rightarrow> VehicleControl" where
  "set_mode e self name =
     (case map_of (mode_mapping e) name of
        Some m_id \<Rightarrow> emit (link_set_mode m_id) self
      | None \<Rightarrow> self)"

definition set_relay :: "VehicleControl \<Rightarrow> Relay \<Rightarrow> bool \<Rightarrow> VehicleControl" where
  "set_relay self relay st =
     (if \<not> is_connected self \<or> (\<not> is_armed self \<and> st) then self
      else emit (relay_task relay st) self)"

fun set_relays_off :: "Relay list \<Rightarrow> VehicleControl \<Rightarrow> VehicleControl" where
  "set_relays_off [] self = self"
| "set_relays_off (relay # rest) self = set_relays_off rest (set_relay self relay False)"

definition turn_off_relays :: "platform \<Rightarrow> VehicleControl \<Rightarrow> VehicleControl" where
  "turn_off_relays e self = set_relays_off (Relay_members e) self"

definition arm :: "VehicleControl \<Rightarrow> VehicleControl" where
  "arm self = emit arducopter_arm self"

definition disarm :: "platform \<Rightarrow> VehicleControl \<Rightarrow> VehicleControl" where
  "disarm e self = emit arducopter_disarm (turn_off_relays e self)"

subsection \<open>update\<close>

text \<open>
  The inputs of one poll: \<open>msg\<close> is what \<^verbatim>\<open>wait_heartbeat(blocking=False)\<close> returns
  (\<open>None\<close> when no heartbeat is pending), with the two entries of \<^verbatim>\<open>msg.to_dict()\<close>
  that are read through \<^verbatim>\<open>.get\<close> (\<open>None\<close> when the key is absent); \<open>hud\<close> is the
  \<^verbatim>\<open>alt\<close> of a pending \<^verbatim>\<open>VFR_HUD\<close> message; \<open>now\<close> is what \<^verbatim>\<open>time.time()\<close>
  returns during the call.
\<close>

record heartbeat =
  base_mode :: "int option"
  custom_mode :: "int option"

text \<open>Lines 73 to 77: the first name of the mapping whose id is the heartbeat's.\<close>

fun find_mode :: "(string \<times> int) list \<Rightarrow> int option \<Rightarrow> string option" where
  "find_mode [] m_id' = None"
| "find_mode ((m, m_id) # rest) m_id' =
     (if Some m_id = m_id' then Some m else find_mode rest m_id')"

text \<open>Lines 54 to 82: a heartbeat was read.\<close>

definition heartbeat_received ::
  "platform \<Rightarrow> heartbeat \<Rightarrow> real \<Rightarrow> VehicleControl \<Rightarrow> VehicleControl \<times> error option" where
  "heartbeat_received e msg now self =
     (let self = (if \<not> connected self
                  then (emit connected_signal_emit self)\<lparr>connected := True\<rparr> else self);
          self = self\<lparr>last_msg_time := Some now\<rparr>
      in case base_mode msg of
           None \<Rightarrow> (self, Some (TypeError ''&''))
         | Some b \<Rightarrow>
             let armed' = (b AND 0x80 = 0x80);
                 self = (if armed' \<noteq> armed self
                         then (emit (if armed' then armed_signal_emit else disarmed_signal_emit) self)
                                \<lparr>armed := armed'\<rparr>
                         else self);
                 m_id = custom_mode msg;
                 self = (if m_id \<noteq> mode_id self
                         then let m = find_mode (mode_mapping e) m_id
                              in emit (mode_signal_emit m) (self\<lparr>mode_id := m_id, mode := m\<rparr>)
                         else self)
             in (self, None))"

text \<open>
  Lines 85 to 87: no heartbeat was read. \<^verbatim>\<open>and\<close> evaluates the subtraction only when
  \<open>connected\<close> is true; on \<open>None\<close> the subtraction raises.
\<close>

definition heartbeat_missing ::
  "platform \<Rightarrow> real \<Rightarrow> VehicleControl \<Rightarrow> VehicleControl \<times> error option" where
  "heartbeat_missing e now self =
     (if connected self then
        case last_msg_time self of
          None \<Rightarrow> (self, Some (TypeError ''-''))
        | Some t \<Rightarrow>
            if fsub e now t > TIMEOUT
            then ((emit disconnected_signal_emit self)\<lparr>connected := False\<rparr>, None)
            else (self, None)
      else (self, None))"

text \<open>Lines 89 to 91.\<close>

definition recv_vfr_hud :: "real option \<Rightarrow> VehicleControl \<Rightarrow> VehicleControl" where
  "recv_vfr_hud hud self =
     (case hud of Some alt \<Rightarrow> emit (depth_update_signal_emit alt) self | None \<Rightarrow> self)"

definition update ::
  "platform \<Rightarrow> heartbeat option \<Rightarrow> real option \<Rightarrow> real \<Rightarrow> VehicleControl
     \<Rightarrow> VehicleControl \<times> error option" where
  "update e msg hud now self =
     (case (case msg of
              Some hb \<Rightarrow> heartbeat_received e hb now self
            | None \<Rightarrow> heartbeat_missing e now self) of
        (self, Some err) \<Rightarrow> (self, Some err)
      | (self, None) \<Rightarrow> (recv_vfr_hud hud self, None))"

subsection \<open>Sequences of calls\<close>

text \<open>
  The public methods of \<^verbatim>\<open>VehicleControl\<close> that are modelled, as calls with their
  arguments; a caller that catches an exception goes on with the object as the failed call
  left it.
\<close>

datatype vehicle_call =
    Update "heartbeat option" "real option" real
  | Arm
  | Disarm
  | Set_rc_input_pwms "(int \<times> int) list"
  | Set_rc_inputs "(InputChannel \<times> real) list"
  | Stop_thrusters
  | Set_mode string
  | Set_relay Relay bool
  | Turn_off_relays

fun vehicle_step :: "platform \<Rightarrow> vehicle_call \<Rightarrow> VehicleControl \<Rightarrow> VehicleControl" where
  "vehicle_step e (Update msg hud now) self = fst (update e msg hud now self)"
| "vehicle_step e Arm self = arm self"
| "vehicle_step e Disarm self = disarm e self"
| "vehicle_step e (Set_rc_input_pwms pwms) self = fst (set_rc_input_pwms self pwms)"
| "vehicle_step e (Set_rc_inputs vals) self = fst (set_rc_inputs e self vals)"
| "vehicle_step e Stop_thrusters self = fst (stop_thrusters e self)"
| "vehicle_step e (Set_mode name) self = set_mode e self name"
| "vehicle_step e (Set_relay relay st) self = set_relay self relay st"
| "vehicle_step e Turn_off_relays self = turn_off_relays e self"

fun vehicle_run :: "platform \<Rightarrow> vehicle_call list \<Rightarrow> VehicleControl \<Rightarrow> VehicleControl" where
  "vehicle_run e [] self = self"
| "vehicle_run e (c # cs) self = vehicle_run e cs (vehicle_step e c self)"

text \<open>The link invariant: a connected object has the time of a heartbeat.\<close>

definition heartbeat_seen :: "VehicleControl \<Rightarrow> bool" where
  "heartbeat_seen self = (connected self \<longrightarrow> last_msg_time self \<noteq> None)"

text \<open>A poll that finds no heartbeat, as a call.\<close>

definition silent_poll :: "real option \<times> real \<Rightarrow> vehicle_call" where
  "silent_poll p = Update None (fst p) (snd p)"

section \<open>tasks/button_docking.py\<close>

text \<open>
  The module constants. A decimal literal is the float nearest to it; the two durations
  are integers.
\<close>

definition TRANSLATION_SENSITIVITY :: "platform \<Rightarrow> real" where
  "TRANSLATION_SENSITIVITY e = fl e (45 / 100)"

definition ROTATIONAL_SENSITIVITY :: "platform \<Rightarrow> real" where
  "ROTATIONAL_SENSITIVITY e = fl e (55 / 100)"

definition MAX_TASK_DURATION :: real where
  "MAX_TASK_DURATION = 500"

definition MIN_TASK_DURATION :: real where
  "MIN_TASK_DURATION = 2"

definition CRAWL_SPEED :: "platform \<Rightarrow> real" where
  "CRAWL_SPEED e = fl e (4 / 10)"

definition FORWARD_SPEED :: "platform \<Rightarrow> real" where
  "FORWARD_SPEED e = fl e (9 / 10)"

definition RAM_SPEED :: "platform \<Rightarrow> real" where
  "RAM_SPEED e = fl e (9 / 10)"

definition START_WIDTH_FRACTION :: "platform \<Rightarrow> real" where
  "START_WIDTH_FRACTION e = fl e (35 / 1000)"

definition START_HEIGHT_FRACTION :: "platform \<Rightarrow> real" where
  "START_HEIGHT_FRACTION e = fl e (35 / 1000)"

definition STOP_WIDTH_FRACTION :: "platform \<Rightarrow> real" where
  "STOP_WIDTH_FRACTION e = fl e (15 / 100)"

definition STOP_HEIGHT_FRACTION :: "platform \<Rightarrow> real" where
  "STOP_HEIGHT_FRACTION e = fl e (15 / 100)"

definition END_WIDTH_FRACTION :: "platform \<Rightarrow> real" where
  "END_WIDTH_FRACTION e = fl e (3 / 10)"

definition END_HEIGHT_FRACTION :: "platform \<Rightarrow> real" where
  "END_HEIGHT_FRACTION e = fl e (3 / 10)"

text \<open>
  The task object. \<open>state\<close> is the phase: 0 is crawl, 1 is steer, 2 is ram. The task
  holds the vehicle it drives.
\<close>

record ButtonDocking =
  button_pos :: "real \<times> real"
  button_dims :: "int \<times> int"
  image_dims :: "int \<times> int"
  start_time :: real
  state :: int
  vehicle :: VehicleControl

definition ButtonDocking_init :: "VehicleControl \<Rightarrow> ButtonDocking" where
  "ButtonDocking_init v =
     \<lparr>button_pos = (- 1, - 1), button_dims = (- 1, - 1), image_dims = (- 1, - 1),
      start_time = 0, state = 0, vehicle = v\<rparr>"

text \<open>\<open>now\<close> is what \<^verbatim>\<open>time.time()\<close> returns on line 91.\<close>

definition initialize :: "platform \<Rightarrow> real \<Rightarrow> ButtonDocking \<Rightarrow> ButtonDocking \<times> error option" where
  "initialize e now self =
     (case stop_thrusters e (vehicle self) of
        (v, Some err) \<Rightarrow> (self\<lparr>vehicle := v\<rparr>, Some err)
      | (v, None) \<Rightarrow>
          (self\<lparr>vehicle := set_mode e v ''ALT_HOLD'', start_time := now, state := 0\<rparr>, None))"

text \<open>
  What \<open>handle_frame\<close> takes from a frame: the score returned by
  \<^verbatim>\<open>get_button_contour\<close>, the \<^verbatim>\<open>cv2.boundingRect\<close> \<open>(x, y, w, h)\<close> of the contour
  it returns, and \<^verbatim>\<open>frame.cv_img.shape\<close>, \<open>(height, width, colors)\<close>. The image
  processing itself is not modelled.
\<close>

record observation =
  high_score :: int
  bounding_rect :: "int \<times> int \<times> int \<times> int"
  shape :: "int \<times> int \<times> int"

definition handle_frame :: "platform \<Rightarrow> observation \<Rightarrow> ButtonDocking \<Rightarrow> ButtonDocking" where
  "handle_frame e frame self =
     (if high_score frame > 0 then
        case bounding_rect frame of (x, y, w, h) \<Rightarrow>
        case shape frame of (height, width, colors) \<Rightarrow>
          self\<lparr>button_pos := (fadd e (of_int x) (fdiv e (of_int w) 2),
                               fadd e (of_int y) (fdiv e (of_int h) 2)),
               button_dims := (w, h),
               image_dims := (py_int (fdiv e (of_int width) 2), height)\<rparr>
      else self)"

text \<open>
  Line 104. The division raises on a zero frame width and \<^verbatim>\<open>math.log\<close> on a quotient
  that is not positive.
\<close>

definition periodic_scale :: "platform \<Rightarrow> ButtonDocking \<Rightarrow> error + real" where
  "periodic_scale e self =
     (if fst (image_dims self) = 0 then Inl ZeroDivisionError
      else
        let q = fdiv e (of_int (fst (button_dims self))) (of_int (fst (image_dims self)))
        in if q \<le> 0 then Inl MathDomainValueError
           else Inr (max (fdiv e (- flog e q) 10) (fl e (1 / 10))))"

text \<open>The conditions of lines 108, 128 and 194 to 195.\<close>

definition start_reached :: "platform \<Rightarrow> ButtonDocking \<Rightarrow> bool" where
  "start_reached e self =
     (of_int (fst (button_dims self))
        \<ge> fmul e (START_WIDTH_FRACTION e) (of_int (fst (image_dims self))) \<or>
      of_int (snd (button_dims self))
        \<ge> fmul e (START_HEIGHT_FRACTION e) (of_int (snd (image_dims self))))"

definition stop_reached :: "platform \<Rightarrow> ButtonDocking \<Rightarrow> bool" where
  "stop_reached e self =
     (of_int (fst (button_dims self))
        \<ge> fmul e (STOP_WIDTH_FRACTION e) (of_int (fst (image_dims self))) \<or>
      of_int (snd (button_dims self))
        \<ge> fmul e (STOP_HEIGHT_FRACTION e) (of_int (snd (image_dims self))))"

definition end_exceeded :: "platform \<Rightarrow> ButtonDocking \<Rightarrow> bool" where
  "end_exceeded e self =
     (of_int (fst (button_dims self))
        > fmul e (END_WIDTH_FRACTION e) (of_int (fst (image_dims self))) \<or>
      of_int (snd (button_dims self))
        > fmul e (END_HEIGHT_FRACTION e) (of_int (snd (image_dims self))))"

definition horizontal_move :: "platform \<Rightarrow> ButtonDocking \<Rightarrow> error + real" where
  "horizontal_move e self =
     (let half = fdiv e (of_int (fst (image_dims self))) 2
      in if half = 0 then Inl ZeroDivisionError
         else Inr (fdiv e (fsub e (fst (button_pos self)) half) half))"

definition vertical_move :: "platform \<Rightarrow> ButtonDocking \<Rightarrow> error + real" where
  "vertical_move e self =
     (let num = fmul e (- 1)
                  (fsub e (snd (button_pos self))
                     (fmul e (of_int (snd (image_dims self))) (fl e (4 / 10))));
          half = fdiv e (of_int (snd (image_dims self))) 2
      in if half = 0 then Inl ZeroDivisionError else Inr (fdiv e num half))"

text \<open>
  Lines 135 to 142: the dict of the steer phase, its values evaluated in order; both
  calls of \<open>vertical_move\<close> return the same.
\<close>

definition steer_inputs ::
  "platform \<Rightarrow> ButtonDocking \<Rightarrow> real \<Rightarrow> error + (InputChannel \<times> real) list" where
  "steer_inputs e self scale =
     (case vertical_move e self of
        Inl err \<Rightarrow> Inl err
      | Inr vm \<Rightarrow>
          case horizontal_move e self of
            Inl err \<Rightarrow> Inl err
          | Inr hm \<Rightarrow>
              Inr [(FORWARD, fmul e scale (FORWARD_SPEED e)),
                   (LATERAL, 0),
                   (THROTTLE, fmul e (fmul e vm scale) (TRANSLATION_SENSITIVITY e)),
                   (PITCH, fmul e (fmul e vm scale) (ROTATIONAL_SENSITIVITY e)),
                   (YAW, fmul e (fmul e hm scale) (ROTATIONAL_SENSITIVITY e)),
                   (ROLL, 0)])"

text \<open>\<^verbatim>\<open>self.vehicle.set_rc_inputs(inputs)\<close>, the last statement of each phase.\<close>

definition vehicle_set_rc_inputs ::
  "platform \<Rightarrow> ButtonDocking \<Rightarrow> (InputChannel \<times> real) list \<Rightarrow> ButtonDocking \<times> error option" where
  "vehicle_set_rc_inputs e self inputs =
     (case set_rc_inputs e (vehicle self) inputs of (v, r) \<Rightarrow> (self\<lparr>vehicle := v\<rparr>, r))"

definition periodic :: "platform \<Rightarrow> ButtonDocking \<Rightarrow> ButtonDocking \<times> error option" where
  "periodic e self =
     (if button_pos self = (- 1, - 1) then (self, None)
      else
        case periodic_scale e self of
          Inl err \<Rightarrow> (self, Some err)
        | Inr scale \<Rightarrow>
            if state self = 0 then
              let self = (if start_reached e self
                          then self\<lparr>state := 1, vehicle := set_mode e (vehicle self) ''MANUAL''\<rparr>
                          else self)
              in vehicle_set_rc_inputs e self
                   [(FORWARD, CRAWL_SPEED e), (LATERAL, 0), (THROTTLE, 0),
                    (PITCH, 0), (YAW, 0), (ROLL, 0)]
            else if state self = 1 then
              let self = (if stop_reached e self then self\<lparr>state := 2\<rparr> else self)
              in case steer_inputs e self scale of
                   Inl err \<Rightarrow> (self, Some err)
                 | Inr inputs \<Rightarrow> vehicle_set_rc_inputs e self inputs
            else if state self = 2 then
              vehicle_set_rc_inputs e self
                [(FORWARD, RAM_SPEED e), (LATERAL, 0), (THROTTLE, - fl e (8 / 100)),
                 (PITCH, 0), (YAW, 0), (ROLL, 0)]
            else (self, None))"

text \<open>
  \<open>now1\<close> and \<open>now2\<close> are what the two calls of \<^verbatim>\<open>time.time()\<close> on lines 193 and
  196 return.
\<close>

definition is_finished :: "platform \<Rightarrow> real \<Rightarrow> real \<Rightarrow> ButtonDocking \<Rightarrow> bool" where
  "is_finished e now1 now2 self =
     (now1 \<ge> fadd e (start_time self) MIN_TASK_DURATION \<and>
      (of_int (fst (button_dims self))
         > fmul e (END_WIDTH_FRACTION e) (of_int (fst (image_dims self))) \<or>
       of_int (snd (button_dims self))
         > fmul e (END_HEIGHT_FRACTION e) (of_int (snd (image_dims self))) \<or>
       now2 \<ge> fadd e (start_time self) MAX_TASK_DURATION))"

subsection \<open>Sequences of calls\<close>

text \<open>
  What can happen to a task: the scheduler's calls, frames arriving, and calls on the
  vehicle it shares with the rest of the program.
\<close>

datatype task_call =
    Initialize real
  | Periodic
  | Handle_frame observation
  | On_vehicle vehicle_call

fun task_step :: "platform \<Rightarrow> task_call \<Rightarrow> ButtonDocking \<Rightarrow> ButtonDocking" where
  "task_step e (Initialize now) self = fst (initialize e now self)"
| "task_step e Periodic self = fst (periodic e self)"
| "task_step e (Handle_frame frame) self = handle_frame e frame self"
| "task_step e (On_vehicle c) self = self\<lparr>vehicle := vehicle_step e c (vehicle self)\<rparr>"

fun task_run :: "platform \<Rightarrow> task_call list \<Rightarrow> ButtonDocking \<Rightarrow> ButtonDocking" where
  "task_run e [] self = self"
| "task_run e (c # cs) self = task_run e cs (task_step e c self)"

fun is_initialize :: "task_call \<Rightarrow> bool" where
  "is_initialize (Initialize now) = True"
| "is_initialize c = False"

text \<open>A call that shows the task no target: any call but a frame with a positive score.\<close>

fun no_target :: "task_call \<Rightarrow> bool" where
  "no_target (Handle_frame frame) = (high_score frame \<le> 0)"
| "no_target c = True"

text \<open>The dimension fields as the constructor left them.\<close>

definition unseen :: "ButtonDocking \<Rightarrow> bool" where
  "unseen self = (button_dims self = (- 1, - 1) \<and> image_dims self = (- 1, - 1))"

section \<open>An example platform\<close>

text \<open>
  A concrete platform on which the results below are exercised: the channel and mode
  numbers are ArduSub's, float arithmetic is exact, and \<open>x - 1\<close> stands in for the
  logarithm so that every value can be computed.
\<close>

definition example_platform :: platform where
  "example_platform =
     \<lparr>channel_value =
        (\<lambda>c. case c of PITCH \<Rightarrow> 1 | ROLL \<Rightarrow> 2 | THROTTLE \<Rightarrow> 3
                      | YAW \<Rightarrow> 4 | FORWARD \<Rightarrow> 5 | LATERAL \<Rightarrow> 6),
      Relay_members = [1, 2, 3],
      mode_mapping = [(''ALT_HOLD'', 2), (''MANUAL'', 19)],
      fl = (\<lambda>x. x),
      flog = (\<lambda>x. x - 1)\<rparr>"

text \<open>The object after a first heartbeat at time 0 that reports armed, mode 19.\<close>

definition example_armed :: VehicleControl where
  "example_armed =
     \<lparr>last_msg_time = Some 0, connected = True, armed = True,
      mode_id = Some 19, mode = Some ''MANUAL'',
      effects = [connected_signal_emit, armed_signal_emit, mode_signal_emit (Some ''MANUAL'')]\<rparr>"

text \<open>The object after a first heartbeat at time 0 that reports disarmed, mode 19.\<close>

definition example_disarmed :: VehicleControl where
  "example_disarmed =
     \<lparr>last_msg_time = Some 0, connected = True, armed = False,
      mode_id = Some 19, mode = Some ''MANUAL'',
      effects = [connected_signal_emit, mode_signal_emit (Some ''MANUAL'')]\<rparr>"

text \<open>
  Frames of a 1280 by 480 side-by-side image: one with no contour, and four whose best
  contour is 10, 30, 100 and 250 pixels wide and high.
\<close>

definition example_miss :: observation where
  "example_miss = \<lparr>high_score = 0, bounding_rect = (0, 0, 0, 0), shape = (480, 1280, 3)\<rparr>"

definition example_far :: observation where
  "example_far = \<lparr>high_score = 100, bounding_rect = (300, 200, 10, 10), shape = (480, 1280, 3)\<rparr>"

definition example_near :: observation where
  "example_near = \<lparr>high_score = 900, bounding_rect = (300, 200, 30, 30), shape = (480, 1280, 3)\<rparr>"

definition example_close :: observation where
  "example_close =
     \<lparr>high_score = 10000, bounding_rect = (300, 200, 100, 100), shape = (480, 1280, 3)\<rparr>"

definition example_touch :: observation where
  "example_touch =
     \<lparr>high_score = 62500, bounding_rect = (200, 100, 250, 250), shape = (480, 1280, 3)\<rparr>"

text \<open>A task constructed on the armed vehicle and initialized at time 10.\<close>

definition example_task :: ButtonDocking where
  "example_task =
     \<lparr>button_pos = (- 1, - 1), button_dims = (- 1, - 1), image_dims = (- 1, - 1),
      start_time = 10, state = 0,
      vehicle = example_armed\<lparr>effects := effects example_armed @
        [rc_channels_override_send
           [1500, 1500, 1500, 1500, 1500, 1500, 65535, 65535, 65535,
            65535, 65535, 65535, 65535, 65535, 65535, 65535, 65535, 65535],
         link_set_mode 2]\<rparr>\<rparr>"

section \<open>Results\<close>

subsection \<open>Floats and rounding\<close>

lemma float_rounding_mono: "float_rounding f \<Longrightarrow> x \<le> y \<Longrightarrow> f x \<le> f y"
  by (simp add: float_rounding_def)

lemma float_rounding_int: "float_rounding f \<Longrightarrow> \<bar>k\<bar> \<le> 2 ^ 53 \<Longrightarrow> f (of_int k) = of_int k"
  by (simp add: float_rounding_def)

lemma float_rounding_example: "float_rounding (fl example_platform)"
  by (simp add: float_rounding_def example_platform_def)

lemma py_round_of_int: "py_round (of_int k) = k"
  by (simp add: py_round_def)

lemma py_round_bounds: "\<lfloor>x\<rfloor> \<le> py_round x \<and> py_round x \<le> \<lfloor>x\<rfloor> + 1"
  by (simp add: py_round_def Let_def)

lemma py_round_mono:
  assumes "x \<le> y"
  shows "py_round x \<le> py_round y"
proof (cases "\<lfloor>x\<rfloor> = \<lfloor>y\<rfloor>")
  case True
  with assms have "x - of_int \<lfloor>x\<rfloor> \<le> y - of_int \<lfloor>y\<rfloor>"
    by simp
  with True show ?thesis
    by (auto simp add: py_round_def Let_def)
next
  case False
  with assms have "\<lfloor>x\<rfloor> + 1 \<le> \<lfloor>y\<rfloor>"
    using floor_mono [of x y] by linarith
  with py_round_bounds [of x] py_round_bounds [of y] show ?thesis
    by linarith
qed

text \<open>
  For a value that passed the range check the float sum of line 137 stays between 1100 and
  1900, so the clamp of line 138 is the identity.
\<close>

lemma input_sum_bounds:
  assumes f: "float_rounding (fl e)" and v: "- 1 \<le> val" "val \<le> 1"
  shows "1100 \<le> fadd e (fmul e val 400) 1500 \<and> fadd e (fmul e val 400) 1500 \<le> 1900"
proof -
  have lo: "fl e (of_int (- 400)) = of_int (- 400)" and hi: "fl e (of_int 400) = of_int 400"
    and lo': "fl e (of_int 1100) = of_int 1100" and hi': "fl e (of_int 1900) = of_int 1900"
    using f by (simp_all add: float_rounding_int del: of_int_minus of_int_numeral)
  have "fl e (- 400) \<le> fl e (val * 400)" and "fl e (val * 400) \<le> fl e 400"
    using f v by (simp_all add: float_rounding_mono)
  with lo hi have m: "- 400 \<le> fmul e val 400" "fmul e val 400 \<le> 400"
    by (simp_all add: fmul_def)
  have "fl e 1100 \<le> fl e (fmul e val 400 + 1500)" and "fl e (fmul e val 400 + 1500) \<le> fl e 1900"
    using f m by (simp_all add: float_rounding_mono)
  with lo' hi' show ?thesis
    by (simp add: fadd_def)
qed

lemma input_pwm_unclamped:
  assumes "float_rounding (fl e)" and "- 1 \<le> val" and "val \<le> 1"
  shows "input_pwm e val = py_round (fadd e (fmul e val 400) 1500) \<and>
         1100 \<le> input_pwm e val \<and> input_pwm e val \<le> 1900"
proof -
  let ?s = "fadd e (fmul e val 400) 1500"
  have lo: "of_int 1100 \<le> ?s" and hi: "?s \<le> of_int 1900"
    using input_sum_bounds [OF assms] by simp_all
  have "py_round (of_int 1100) \<le> py_round ?s"
    using lo by (rule py_round_mono)
  moreover have "py_round ?s \<le> py_round (of_int 1900)"
    using hi by (rule py_round_mono)
  ultimately have "1100 \<le> py_round ?s" and "py_round ?s \<le> 1900"
    by (simp_all only: py_round_of_int)
  then show ?thesis
    by (simp add: input_pwm_def Let_def)
qed

lemma input_pwm_clamped: "1100 \<le> input_pwm e v \<and> input_pwm e v \<le> 1900"
  by (simp add: input_pwm_def Let_def)

lemma input_pwm_mono:
  assumes "float_rounding (fl e)" and "a \<le> b"
  shows "input_pwm e a \<le> input_pwm e b"
proof -
  have "fmul e a 400 \<le> fmul e b 400"
    using assms by (simp add: fmul_def float_rounding_mono)
  then have "fadd e (fmul e a 400) 1500 \<le> fadd e (fmul e b 400) 1500"
    using assms by (simp add: fadd_def float_rounding_mono)
  then have "py_round (fadd e (fmul e a 400) 1500) \<le> py_round (fadd e (fmul e b 400) 1500)"
    by (rule py_round_mono)
  then show ?thesis
    by (simp add: input_pwm_def Let_def)
qed

subsection \<open>The example objects are reachable\<close>

lemma example_armed_reached:
  "fst (update example_platform (Some \<lparr>base_mode = Some 209, custom_mode = Some 19\<rparr>) None 0
     VehicleControl_init) = example_armed"
  by (simp add: update_def heartbeat_received_def VehicleControl_init_def emit_def
      example_platform_def example_armed_def recv_vfr_hud_def Let_def)

lemma example_disarmed_reached:
  "fst (update example_platform (Some \<lparr>base_mode = Some 81, custom_mode = Some 19\<rparr>) None 0
     VehicleControl_init) = example_disarmed"
  by (simp add: update_def heartbeat_received_def VehicleControl_init_def emit_def
      example_platform_def example_disarmed_def recv_vfr_hud_def Let_def)

subsection \<open>The two loops of the RC path\<close>

lemma fill_valid:
  "list_all (\<lambda>(c, p). 1 \<le> c \<and> c \<le> 18 \<and> 1100 \<le> p \<and> p \<le> 1900) pwms \<Longrightarrow>
   fill_rc_channel_values pwms rc =
     Inr (fold (\<lambda>(c, p) rc. rc[nat (c - 1) := p]) pwms rc)"
  by (induction pwms arbitrary: rc) auto

lemma fill_first_invalid:
  "list_all (\<lambda>(c, p). 1 \<le> c \<and> c \<le> 18 \<and> 1100 \<le> p \<and> p \<le> 1900) ok \<Longrightarrow>
   fill_rc_channel_values (ok @ (c, p) # rest) rc =
     (if c < 1 \<or> 18 < c then Inl (ChannelIdValueError c)
      else if p < 1100 \<or> 1900 < p then Inl (PwmValueError p)
      else fill_rc_channel_values rest
             ((fold (\<lambda>(c, p) rc. rc[nat (c - 1) := p]) ok rc)[nat (c - 1) := p]))"
  by (induction ok arbitrary: rc) auto

lemma length_fold_upd:
  "length (fold (\<lambda>(c, p) rc. rc[nat (c - 1) := p]) pwms rc) = length rc"
  by (induction pwms arbitrary: rc) auto

lemma fold_upd_nth:
  "distinct (map fst pwms) \<Longrightarrow> \<forall>k \<in> fst ` set pwms. 1 \<le> k \<Longrightarrow> i < length rc \<Longrightarrow>
   fold (\<lambda>(c, p) rc. rc[nat (c - 1) := p]) pwms rc ! i =
     (case map_of pwms (int i + 1) of Some p \<Rightarrow> p | None \<Rightarrow> rc ! i)"
proof (induction pwms arbitrary: rc)
  case Nil
  then show ?case by simp
next
  case (Cons kp pwms)
  obtain k p where kp: "kp = (k, p)" by (cases kp)
  from Cons.prems kp have k: "1 \<le> k" and notin: "k \<notin> fst ` set pwms"
    and d: "distinct (map fst pwms)" and ks: "\<forall>k \<in> fst ` set pwms. 1 \<le> k"
    by auto
  have len: "i < length (rc[nat (k - 1) := p])"
    using Cons.prems(3) by simp
  have step: "fold (\<lambda>(c, p) rc. rc[nat (c - 1) := p]) (kp # pwms) rc ! i =
      (case map_of pwms (int i + 1) of Some p' \<Rightarrow> p' | None \<Rightarrow> rc[nat (k - 1) := p] ! i)"
    using Cons.IH [OF d ks len] kp by simp
  show ?case
  proof (cases "k = int i + 1")
    case True
    with notin have "map_of pwms (int i + 1) = None"
      by (simp add: map_of_eq_None_iff)
    with step True kp Cons.prems(3) show ?thesis
      by simp
  next
    case False
    with k have "nat (k - 1) \<noteq> i"
      by linarith
    with step False kp show ?thesis
      by (simp split: option.split)
  qed
qed

lemma input_pwms_in_range:
  "list_all (\<lambda>(c, v). - 1 \<le> v \<and> v \<le> 1) vals \<Longrightarrow>
   input_pwms e vals acc =
     Inr (fold (\<lambda>(c, v). AList.update (channel_value e c) (input_pwm e v)) vals acc)"
  by (induction vals arbitrary: acc) auto

lemma input_pwms_out_of_range:
  "\<not> list_all (\<lambda>(c, v). - 1 \<le> v \<and> v \<le> 1) vals \<Longrightarrow>
   \<exists>v. v \<in> snd ` set vals \<and> \<not> (- 1 \<le> v \<and> v \<le> 1) \<and>
       input_pwms e vals acc = Inl (InputValueError v)"
proof (induction vals arbitrary: acc)
  case Nil
  then show ?case by simp
next
  case (Cons cv vals)
  obtain c v where cv: "cv = (c, v)" by (cases cv)
  show ?case
  proof (cases "- 1 \<le> v \<and> v \<le> 1")
    case True
    with Cons.prems cv have "\<not> list_all (\<lambda>(c, v). - 1 \<le> v \<and> v \<le> 1) vals"
      by simp
    from Cons.IH [OF this, of "AList.update (channel_value e c) (input_pwm e v) acc"]
    show ?thesis using True cv by auto
  next
    case False
    then have "input_pwms e (cv # vals) acc = Inl (InputValueError v)"
      using cv by simp
    with False cv show ?thesis by force
  qed
qed

lemma distinct_fold_update:
  "distinct (map fst acc) \<Longrightarrow>
   distinct (map fst (fold (\<lambda>(c, v). AList.update (channel_value e c) (input_pwm e v)) vals acc))"
  by (induction vals arbitrary: acc) (auto simp add: distinct_update)

lemma map_of_fold_update_other:
  "k \<notin> channel_value e ` fst ` set vals \<Longrightarrow>
   map_of (fold (\<lambda>(c, v). AList.update (channel_value e c) (input_pwm e v)) vals acc) k =
     map_of acc k"
  by (induction vals arbitrary: acc) (auto simp add: update_conv')

lemma map_of_fold_update_present:
  "distinct (map fst vals) \<Longrightarrow> inj (channel_value e) \<Longrightarrow> (c, v) \<in> set vals \<Longrightarrow>
   map_of (fold (\<lambda>(c, v). AList.update (channel_value e c) (input_pwm e v)) vals acc)
     (channel_value e c) = Some (input_pwm e v)"
proof (induction vals arbitrary: acc)
  case Nil
  then show ?case by simp
next
  case (Cons cv vals)
  obtain c' v' where cv: "cv = (c', v')" by (cases cv)
  show ?case
  proof (cases "(c, v) = (c', v')")
    case True
    with Cons.prems cv have "c \<notin> fst ` set vals"
      by simp
    with Cons.prems(2) have "channel_value e c \<notin> channel_value e ` fst ` set vals"
      by (auto dest: injD)
    then show ?thesis
      using True cv by (simp add: map_of_fold_update_other update_conv')
  next
    case False
    with Cons.prems cv have "(c, v) \<in> set vals" and "distinct (map fst vals)"
      by auto
    with Cons.IH Cons.prems(2) cv show ?thesis
      by simp
  qed
qed

lemma set_update_subset: "set (AList.update a b al) \<subseteq> insert (a, b) (set al)"
  by (induction al) auto

lemma fold_update_entries:
  "(k, p) \<in> set (fold (\<lambda>(c, v). AList.update (channel_value e c) (input_pwm e v)) vals acc) \<Longrightarrow>
   (k, p) \<in> set acc \<or> (\<exists>c v. (c, v) \<in> set vals \<and> k = channel_value e c \<and> p = input_pwm e v)"
proof (induction vals arbitrary: acc)
  case Nil
  then show ?case by simp
next
  case (Cons cv vals)
  obtain c' v' where cv: "cv = (c', v')" by (cases cv)
  from Cons.prems cv
  have "(k, p) \<in> set (fold (\<lambda>(c, v). AList.update (channel_value e c) (input_pwm e v)) vals
           (AList.update (channel_value e c') (input_pwm e v') acc))"
    by simp
  from Cons.IH [OF this]
  consider "(k, p) \<in> set (AList.update (channel_value e c') (input_pwm e v') acc)"
    | "\<exists>c v. (c, v) \<in> set vals \<and> k = channel_value e c \<and> p = input_pwm e v"
    by blast
  then show ?case
  proof cases
    case 1
    with set_update_subset [of "channel_value e c'" "input_pwm e v'" acc]
    have "(k, p) = (channel_value e c', input_pwm e v') \<or> (k, p) \<in> set acc"
      by blast
    with cv show ?thesis by auto
  next
    case 2
    with cv show ?thesis by auto
  qed
qed

subsection \<open>Normalized inputs and raw channel values\<close>

text \<open>
  C1. Take a platform whose float rounding is monotone and exact on integers and whose
  channel numbers are distinct and lie in 1..18, and an input map (distinct keys). If
  every value lies in [-1, 1], \<open>set_rc_inputs\<close> returns normally; the 18-slot command
  holds, at each present channel, \<open>round(value * 400 + 1500)\<close>, which lies in
  [1100, 1900] without the clamp, and the ignore value 65535 at every other slot; it is
  sent when the object is connected and armed, and dropped otherwise. If some value lies
  outside [-1, 1] (on any platform), the call raises the input \<^verbatim>\<open>ValueError\<close> for such a
  value and the object is unchanged: no command is sent, not even for the entries before
  the bad one.
\<close>

theorem set_rc_inputs_atomic:
  "(float_rounding (fl e) \<and> inj (channel_value e) \<and>
    (\<forall>c. 1 \<le> channel_value e c \<and> channel_value e c \<le> 18) \<and>
    distinct (map fst vals) \<and> list_all (\<lambda>(c, v). - 1 \<le> v \<and> v \<le> 1) vals \<longrightarrow>
      (\<exists>rc. length rc = 18 \<and>
         (\<forall>(c, v) \<in> set vals.
            rc ! nat (channel_value e c - 1) = py_round (fadd e (fmul e v 400) 1500) \<and>
            1100 \<le> py_round (fadd e (fmul e v 400) 1500) \<and>
            py_round (fadd e (fmul e v 400) 1500) \<le> 1900) \<and>
         (\<forall>i < 18. int i + 1 \<notin> channel_value e ` fst ` set vals \<longrightarrow> rc ! i = 65535) \<and>
         set_rc_inputs e self vals =
           (if connected self \<and> armed self
            then self\<lparr>effects := effects self @ [rc_channels_override_send rc]\<rparr>
            else self, None))) \<and>
   (\<not> list_all (\<lambda>(c, v). - 1 \<le> v \<and> v \<le> 1) vals \<longrightarrow>
      (\<exists>v. v \<in> snd ` set vals \<and> \<not> (- 1 \<le> v \<and> v \<le> 1) \<and>
         set_rc_inputs e self vals = (self, Some (InputValueError v))))"
proof (intro conjI impI)
  assume "\<not> list_all (\<lambda>(c, v). - 1 \<le> v \<and> v \<le> 1) vals"
  from input_pwms_out_of_range [OF this, of e "[]"]
  show "\<exists>v. v \<in> snd ` set vals \<and> \<not> (- 1 \<le> v \<and> v \<le> 1) \<and>
         set_rc_inputs e self vals = (self, Some (InputValueError v))"
    by (auto simp add: set_rc_inputs_def)
next
  assume a: "float_rounding (fl e) \<and> inj (channel_value e) \<and>
    (\<forall>c. 1 \<le> channel_value e c \<and> channel_value e c \<le> 18) \<and>
    distinct (map fst vals) \<and> list_all (\<lambda>(c, v). - 1 \<le> v \<and> v \<le> 1) vals"
  let ?pw = "fold (\<lambda>(c, v). AList.update (channel_value e c) (input_pwm e v)) vals []"
  let ?rc = "fold (\<lambda>(c, p) rc. rc[nat (c - 1) := p]) ?pw (replicate 18 65535)"
  have pw: "input_pwms e vals [] = Inr ?pw"
    using a by (simp add: input_pwms_in_range)
  have d: "distinct (map fst ?pw)"
    by (simp add: distinct_fold_update)
  have entries: "\<exists>c v. (c, v) \<in> set vals \<and> k = channel_value e c \<and> p = input_pwm e v"
    if "(k, p) \<in> set ?pw" for k p
    using fold_update_entries [OF that] by simp
  have keys: "\<forall>k \<in> fst ` set ?pw. 1 \<le> k"
    using entries a by fastforce
  have valid: "list_all (\<lambda>(c, p). 1 \<le> c \<and> c \<le> 18 \<and> 1100 \<le> p \<and> p \<le> 1900) ?pw"
    unfolding list_all_iff using entries a input_pwm_clamped by fastforce
  have len: "length ?rc = 18"
    by (simp add: length_fold_upd)
  have nth: "?rc ! i = (case map_of ?pw (int i + 1) of Some p \<Rightarrow> p | None \<Rightarrow> 65535)"
    if "i < 18" for i
    using fold_upd_nth [OF d keys, of i "replicate 18 65535"] that
    by (simp split: option.split)
  have present: "?rc ! nat (channel_value e c - 1) = py_round (fadd e (fmul e v 400) 1500) \<and>
      1100 \<le> py_round (fadd e (fmul e v 400) 1500) \<and>
      py_round (fadd e (fmul e v 400) 1500) \<le> 1900"
    if cv: "(c, v) \<in> set vals" for c v
  proof -
    from a cv have v: "- 1 \<le> v" "v \<le> 1"
      by (auto simp add: list_all_iff)
    from a have f: "float_rounding (fl e)" by simp
    from a have "1 \<le> channel_value e c" and "channel_value e c \<le> 18"
      by simp_all
    then have i: "nat (channel_value e c - 1) < 18"
      and idx: "int (nat (channel_value e c - 1)) + 1 = channel_value e c"
      by simp_all
    have "map_of ?pw (channel_value e c) = Some (input_pwm e v)"
      using a cv by (simp add: map_of_fold_update_present)
    with nth [OF i] idx have "?rc ! nat (channel_value e c - 1) = input_pwm e v"
      by simp
    with input_pwm_unclamped [OF f v] show ?thesis
      by simp
  qed
  have absent: "?rc ! i = 65535"
    if "i < 18" and "int i + 1 \<notin> channel_value e ` fst ` set vals" for i
  proof -
    from that(2) have "map_of ?pw (int i + 1) = None"
      by (simp add: map_of_fold_update_other)
    with nth [OF that(1)] show ?thesis
      by simp
  qed
  have "set_rc_inputs e self vals =
      (if connected self \<and> armed self
       then self\<lparr>effects := effects self @ [rc_channels_override_send ?rc]\<rparr>
       else self, None)"
    using pw valid
    by (simp add: set_rc_inputs_def set_rc_input_pwms_def is_connected_def is_armed_def
        fill_valid emit_def)
  with len present absent
  show "\<exists>rc. length rc = 18 \<and>
         (\<forall>(c, v) \<in> set vals.
            rc ! nat (channel_value e c - 1) = py_round (fadd e (fmul e v 400) 1500) \<and>
            1100 \<le> py_round (fadd e (fmul e v 400) 1500) \<and>
            py_round (fadd e (fmul e v 400) 1500) \<le> 1900) \<and>
         (\<forall>i < 18. int i + 1 \<notin> channel_value e ` fst ` set vals \<longrightarrow> rc ! i = 65535) \<and>
         set_rc_inputs e self vals =
           (if connected self \<and> armed self
            then self\<lparr>effects := effects self @ [rc_channels_override_send rc]\<rparr>
            else self, None)"
    by (intro exI [of _ ?rc]) auto
qed

theorem set_rc_inputs_atomic_witness:
  "float_rounding (fl example_platform) \<and> inj (channel_value example_platform) \<and>
   set_rc_inputs example_platform example_armed [(FORWARD, 2 / 5), (YAW, - 1), (THROTTLE, 1)] =
     (example_armed\<lparr>effects := effects example_armed @
        [rc_channels_override_send
          [65535, 65535, 1900, 1100, 1660, 65535, 65535, 65535, 65535,
           65535, 65535, 65535, 65535, 65535, 65535, 65535, 65535, 65535]]\<rparr>, None) \<and>
   set_rc_inputs example_platform example_disarmed [(FORWARD, 2 / 5), (YAW, - 1), (THROTTLE, 1)] =
     (example_disarmed, None) \<and>
   set_rc_inputs example_platform example_armed [(FORWARD, 2 / 5), (YAW, 3 / 2), (THROTTLE, 1)] =
     (example_armed, Some (InputValueError (3 / 2)))"
proof -
  have i: "inj (channel_value example_platform)"
    by (auto simp add: inj_def example_platform_def split: InputChannel.splits)
  have r: "\<forall>c. 1 \<le> channel_value example_platform c \<and> channel_value example_platform c \<le> 18"
    by (simp add: example_platform_def split: InputChannel.split)
  have ok: "distinct (map fst [(FORWARD, 2 / 5 :: real), (YAW, - 1), (THROTTLE, 1)]) \<and>
      list_all (\<lambda>(c, v). - 1 \<le> v \<and> v \<le> 1) [(FORWARD, 2 / 5 :: real), (YAW, - 1), (THROTTLE, 1)]"
    by simp
  have bad: "\<not> list_all (\<lambda>(c, v). - 1 \<le> v \<and> v \<le> 1)
      [(FORWARD, 2 / 5 :: real), (YAW, 3 / 2), (THROTTLE, 1)]"
    by simp
  have sent: "set_rc_inputs example_platform example_armed
      [(FORWARD, 2 / 5), (YAW, - 1), (THROTTLE, 1)] =
     (example_armed\<lparr>effects := effects example_armed @
        [rc_channels_override_send
          [65535, 65535, 1900, 1100, 1660, 65535, 65535, 65535, 65535,
           65535, 65535, 65535, 65535, 65535, 65535, 65535, 65535, 65535]]\<rparr>, None)"
    by (simp add: set_rc_inputs_def set_rc_input_pwms_def is_connected_def is_armed_def
        input_pwm_def fadd_def fmul_def py_round_def Let_def emit_def
        example_platform_def example_armed_def eval_nat_numeral)
  have dropped: "set_rc_inputs example_platform example_disarmed
      [(FORWARD, 2 / 5), (YAW, - 1), (THROTTLE, 1)] = (example_disarmed, None)"
    using set_rc_inputs_atomic [of example_platform "[(FORWARD, 2 / 5), (YAW, - 1), (THROTTLE, 1)]"
        example_disarmed] float_rounding_example i r ok
    by (auto simp add: example_disarmed_def)
  have rejected: "set_rc_inputs example_platform example_armed
      [(FORWARD, 2 / 5), (YAW, 3 / 2), (THROTTLE, 1)] =
     (example_armed, Some (InputValueError (3 / 2)))"
    using set_rc_inputs_atomic [of example_platform "[(FORWARD, 2 / 5), (YAW, 3 / 2), (THROTTLE, 1)]"
        example_armed] bad
    by auto
  from float_rounding_example i sent dropped rejected show ?thesis
    by blast
qed

text \<open>
  C2. Whenever the link is disconnected or the vehicle is disarmed, \<open>set_rc_input_pwms\<close>
  returns normally and leaves the object as it was, whatever the map holds: nothing is
  transmitted, no field changes, and nothing is kept for later delivery.
\<close>

theorem set_rc_input_pwms_dropped:
  "\<not> connected self \<or> \<not> armed self \<Longrightarrow> set_rc_input_pwms self pwms = (self, None)"
  by (simp add: set_rc_input_pwms_def is_connected_def is_armed_def)

theorem set_rc_input_pwms_dropped_witness:
  "\<not> connected VehicleControl_init \<and>
   set_rc_input_pwms VehicleControl_init [(5, 1700)] = (VehicleControl_init, None) \<and>
   connected example_disarmed \<and> \<not> armed example_disarmed \<and>
   set_rc_input_pwms example_disarmed [(5, 1700)] = (example_disarmed, None)"
  using set_rc_input_pwms_dropped [of VehicleControl_init "[(5, 1700)]"]
    set_rc_input_pwms_dropped [of example_disarmed "[(5, 1700)]"]
  by (simp add: VehicleControl_init_def example_disarmed_def)

subsection \<open>The docking task\<close>

lemma dims_vehicle_set_rc_inputs:
  "button_dims (fst (vehicle_set_rc_inputs e self inputs)) = button_dims self \<and>
   image_dims (fst (vehicle_set_rc_inputs e self inputs)) = image_dims self"
  by (cases "set_rc_inputs e (vehicle self) inputs") (simp add: vehicle_set_rc_inputs_def)

lemma dims_periodic:
  "button_dims (fst (periodic e self)) = button_dims self \<and>
   image_dims (fst (periodic e self)) = image_dims self"
  by (simp add: periodic_def Let_def dims_vehicle_set_rc_inputs split: sum.split)

lemma dims_initialize:
  "button_dims (fst (initialize e now self)) = button_dims self \<and>
   image_dims (fst (initialize e now self)) = image_dims self"
  by (simp add: initialize_def split: prod.split option.split)

lemma task_step_unseen:
  "no_target c \<Longrightarrow> unseen self \<Longrightarrow> unseen (task_step e c self)"
  by (cases c) (simp_all add: unseen_def dims_periodic dims_initialize handle_frame_def)

lemma task_run_unseen:
  "list_all no_target cs \<Longrightarrow> unseen self \<Longrightarrow> unseen (task_run e cs self)"
  by (induction cs arbitrary: self) (simp_all add: task_step_unseen)

lemma unseen_not_end_exceeded:
  assumes f: "float_rounding (fl e)" and u: "unseen self"
  shows "\<not> end_exceeded e self"
proof -
  have one: "fl e 1 = 1" and mone: "fl e (- 1) = - 1"
    using float_rounding_int [OF f, of 1] float_rounding_int [OF f, of "- 1"] by simp_all
  have "fl e (3 / 10) \<le> fl e 1"
    using f by (simp add: float_rounding_mono)
  with one have "- 1 \<le> fl e (3 / 10) * - 1"
    by simp
  then have "fl e (- 1) \<le> fl e (fl e (3 / 10) * - 1)"
    using f by (simp add: float_rounding_mono)
  with mone have "- 1 \<le> fl e (fl e (3 / 10) * - 1)"
    by simp
  with u show ?thesis
    by (simp add: end_exceeded_def unseen_def fmul_def END_WIDTH_FRACTION_def
        END_HEIGHT_FRACTION_def not_less)
qed

text \<open>
  C3. \<open>is_finished\<close> is true exactly when the first clock reading is at least
  \<open>start_time + 2\<close> and the stored box width exceeds 0.3 of the stored frame width, or
  the stored box height exceeds 0.3 of the stored frame height, or the second clock
  reading is at least \<open>start_time + 500\<close>. On a task that was constructed and then saw no
  target (whatever else was called, on a platform with a float rounding), both dimension
  fields still hold -1, the box-size condition is false, and \<open>is_finished\<close> is true
  exactly when the maximum duration has elapsed; the same holds of any task whose box
  does not exceed the end fraction.
\<close>

theorem is_finished_iff:
  "(is_finished e now1 now2 self \<longleftrightarrow>
      fadd e (start_time self) 2 \<le> now1 \<and>
      (fmul e (fl e (3 / 10)) (of_int (fst (image_dims self))) < of_int (fst (button_dims self)) \<or>
       fmul e (fl e (3 / 10)) (of_int (snd (image_dims self))) < of_int (snd (button_dims self)) \<or>
       fadd e (start_time self) 500 \<le> now2)) \<and>
   (float_rounding (fl e) \<and> list_all no_target cs \<and>
    self = task_run e cs (ButtonDocking_init v) \<longrightarrow>
      button_dims self = (- 1, - 1) \<and> image_dims self = (- 1, - 1) \<and>
      \<not> end_exceeded e self \<and>
      (is_finished e now1 now2 self \<longleftrightarrow>
         fadd e (start_time self) 2 \<le> now1 \<and> fadd e (start_time self) 500 \<le> now2) \<and>
      (is_finished e now now self \<longleftrightarrow> fadd e (start_time self) 500 \<le> now)) \<and>
   (float_rounding (fl e) \<and> \<not> end_exceeded e self \<longrightarrow>
      (is_finished e now now self \<longleftrightarrow> fadd e (start_time self) 500 \<le> now))"
proof (intro conjI impI)
  show "is_finished e now1 now2 self \<longleftrightarrow>
      fadd e (start_time self) 2 \<le> now1 \<and>
      (fmul e (fl e (3 / 10)) (of_int (fst (image_dims self))) < of_int (fst (button_dims self)) \<or>
       fmul e (fl e (3 / 10)) (of_int (snd (image_dims self))) < of_int (snd (button_dims self)) \<or>
       fadd e (start_time self) 500 \<le> now2)"
    by (simp add: is_finished_def MIN_TASK_DURATION_def MAX_TASK_DURATION_def
        END_WIDTH_FRACTION_def END_HEIGHT_FRACTION_def)
next
  assume a: "float_rounding (fl e) \<and> list_all no_target cs \<and>
    self = task_run e cs (ButtonDocking_init v)"
  have "unseen (ButtonDocking_init v)"
    by (simp add: unseen_def ButtonDocking_init_def)
  with a have u: "unseen self"
    by (simp add: task_run_unseen)
  then show "button_dims self = (- 1, - 1)" and "image_dims self = (- 1, - 1)"
    by (simp_all add: unseen_def)
  from a u have n: "\<not> end_exceeded e self"
    by (simp add: unseen_not_end_exceeded)
  then show "\<not> end_exceeded e self" .
  from n show both: "is_finished e now1 now2 self \<longleftrightarrow>
         fadd e (start_time self) 2 \<le> now1 \<and> fadd e (start_time self) 500 \<le> now2" for now1 now2
    by (simp add: is_finished_def end_exceeded_def MIN_TASK_DURATION_def MAX_TASK_DURATION_def)
  have "fadd e (start_time self) 2 \<le> fadd e (start_time self) 500"
    using a by (simp add: fadd_def float_rounding_mono)
  with both [of now now] show "is_finished e now now self \<longleftrightarrow> fadd e (start_time self) 500 \<le> now"
    by auto
next
  assume a: "float_rounding (fl e) \<and> \<not> end_exceeded e self"
  then have "fadd e (start_time self) 2 \<le> fadd e (start_time self) 500"
    by (simp add: fadd_def float_rounding_mono)
  with a show "is_finished e now now self \<longleftrightarrow> fadd e (start_time self) 500 \<le> now"
    by (auto simp add: is_finished_def end_exceeded_def MIN_TASK_DURATION_def
        MAX_TASK_DURATION_def)
qed

lemma example_unseen_run:
  "start_time (task_run example_platform
      [Initialize 10, Periodic, Handle_frame example_miss, On_vehicle Arm, Periodic]
      (ButtonDocking_init example_armed)) = 10"
  by (simp add: initialize_def stop_thrusters_def set_rc_inputs_def set_rc_input_pwms_def
      is_connected_def is_armed_def input_pwm_def fadd_def fmul_def py_round_def Let_def
      emit_def set_mode_def periodic_def handle_frame_def example_miss_def arm_def
      ButtonDocking_init_def example_platform_def example_armed_def eval_nat_numeral)

theorem is_finished_iff_witness:
  "list_all no_target [Initialize 10, Periodic, Handle_frame example_miss, On_vehicle Arm, Periodic] \<and>
   \<not> is_finished example_platform 509 509
       (task_run example_platform
          [Initialize 10, Periodic, Handle_frame example_miss, On_vehicle Arm, Periodic]
          (ButtonDocking_init example_armed)) \<and>
   is_finished example_platform 510 510
     (task_run example_platform
        [Initialize 10, Periodic, Handle_frame example_miss, On_vehicle Arm, Periodic]
        (ButtonDocking_init example_armed)) \<and>
   \<not> is_finished example_platform 11 11 (handle_frame example_platform example_touch example_task) \<and>
   is_finished example_platform 12 12 (handle_frame example_platform example_touch example_task) \<and>
   \<not> is_finished example_platform 12 12 (handle_frame example_platform example_close example_task)"
proof -
  define cs where
    "cs = [Initialize 10, Periodic, Handle_frame example_miss, On_vehicle Arm, Periodic]"
  define t where "t = task_run example_platform cs (ButtonDocking_init example_armed)"
  have n: "list_all no_target cs"
    by (simp add: cs_def example_miss_def)
  have "start_time t = 10"
    unfolding t_def cs_def by (rule example_unseen_run)
  then have s: "fadd example_platform (start_time t) 500 = 510"
    by (simp add: fadd_def example_platform_def)
  have "is_finished example_platform now now t \<longleftrightarrow>
      fadd example_platform (start_time t) 500 \<le> now" for now
    using is_finished_iff [where e = example_platform and self = t and cs = cs
        and v = example_armed and now = now] float_rounding_example n t_def
    by blast
  with s have "is_finished example_platform now now t \<longleftrightarrow> 510 \<le> now" for now
    by simp
  from this [of 509] this [of 510] n
  have timeout: "list_all no_target cs \<and> \<not> is_finished example_platform 509 509 t \<and>
      is_finished example_platform 510 510 t"
    by simp
  have box: "\<not> is_finished example_platform 11 11
        (handle_frame example_platform example_touch example_task) \<and>
      is_finished example_platform 12 12
        (handle_frame example_platform example_touch example_task) \<and>
      \<not> is_finished example_platform 12 12
        (handle_frame example_platform example_close example_task)"
    by (simp add: is_finished_def handle_frame_def fadd_def fmul_def fdiv_def py_int_def
        END_WIDTH_FRACTION_def END_HEIGHT_FRACTION_def MIN_TASK_DURATION_def
        MAX_TASK_DURATION_def example_touch_def example_close_def example_task_def
        example_platform_def)
  from timeout box show ?thesis
    unfolding t_def cs_def by blast
qed

lemma state_vehicle_set_rc_inputs:
  "state (fst (vehicle_set_rc_inputs e self inputs)) = state self"
  by (cases "set_rc_inputs e (vehicle self) inputs") (simp add: vehicle_set_rc_inputs_def)

lemma state_periodic:
  "state (fst (periodic e self)) =
     (if button_pos self = (- 1, - 1) then state self
      else case periodic_scale e self of
        Inl err \<Rightarrow> state self
      | Inr scale \<Rightarrow>
          if state self = 0 \<and> start_reached e self then 1
          else if state self = 1 \<and> stop_reached e self then 2
          else state self)"
  by (simp add: periodic_def Let_def state_vehicle_set_rc_inputs split: sum.split)

lemma state_handle_frame: "state (handle_frame e frame self) = state self"
  by (simp add: handle_frame_def split: prod.split)

lemma state_initialize:
  "state (fst (initialize e now self)) =
     (if snd (initialize e now self) = None then 0 else state self)"
  by (simp add: initialize_def split: prod.split option.split)

lemma task_step_forward:
  "\<not> is_initialize c \<Longrightarrow> state self \<le> state (task_step e c self)"
  by (cases c) (simp_all add: state_periodic state_handle_frame split: sum.split)

lemma task_run_append: "task_run e (cs @ cs') self = task_run e cs' (task_run e cs self)"
  by (induction cs arbitrary: self) simp_all

lemma task_run_forward:
  "list_all (\<lambda>c. \<not> is_initialize c) cs \<Longrightarrow> state self \<le> state (task_run e cs self)"
proof (induction cs arbitrary: self)
  case Nil
  then show ?case by simp
next
  case (Cons c cs)
  then have "state self \<le> state (task_step e c self)"
    by (simp add: task_step_forward)
  also have "\<dots> \<le> state (task_run e cs (task_step e c self))"
    using Cons by simp
  finally show ?case by simp
qed

text \<open>
  C4. A freshly constructed task is in phase 0 after \<open>initialize\<close>, and so is any task on
  which \<open>initialize\<close> returned normally. One \<open>periodic\<close> keeps the phase, or moves it from
  0 to 1 when the start condition holds, or from 1 to 2 when the stop condition holds;
  \<open>handle_frame\<close> keeps it. Along any sequence of calls without a further \<open>initialize\<close>
  (calls of \<open>periodic\<close> and \<open>handle_frame\<close>, and calls on the vehicle) the phase never
  decreases, so a phase that has been left is not entered again.
\<close>

theorem phase_forward:
  "state (fst (initialize e now (ButtonDocking_init v))) = 0 \<and>
   (snd (initialize e now self) = None \<longrightarrow> state (fst (initialize e now self)) = 0) \<and>
   (state (fst (periodic e self)) = state self \<or>
    state self = 0 \<and> start_reached e self \<and> state (fst (periodic e self)) = 1 \<or>
    state self = 1 \<and> stop_reached e self \<and> state (fst (periodic e self)) = 2) \<and>
   state (handle_frame e frame self) = state self \<and>
   (list_all (\<lambda>c. \<not> is_initialize c) (cs @ cs' @ cs'') \<longrightarrow>
      state (task_run e cs self) \<le> state (task_run e (cs @ cs') self) \<and>
      (state (task_run e (cs @ cs') self) \<noteq> state (task_run e cs self) \<longrightarrow>
       state (task_run e (cs @ cs' @ cs'') self) \<noteq> state (task_run e cs self)))"
proof -
  have init: "state (fst (initialize e now (ButtonDocking_init v))) = 0"
    by (simp add: state_initialize ButtonDocking_init_def)
  have init': "snd (initialize e now self) = None \<longrightarrow> state (fst (initialize e now self)) = 0"
    by (simp add: state_initialize)
  have step: "state (fst (periodic e self)) = state self \<or>
    state self = 0 \<and> start_reached e self \<and> state (fst (periodic e self)) = 1 \<or>
    state self = 1 \<and> stop_reached e self \<and> state (fst (periodic e self)) = 2"
    by (simp add: state_periodic split: sum.split)
  have run: "state (task_run e cs self) \<le> state (task_run e (cs @ cs') self) \<and>
      (state (task_run e (cs @ cs') self) \<noteq> state (task_run e cs self) \<longrightarrow>
       state (task_run e (cs @ cs' @ cs'') self) \<noteq> state (task_run e cs self))"
    if a: "list_all (\<lambda>c. \<not> is_initialize c) (cs @ cs' @ cs'')"
  proof -
    from a have 1: "state (task_run e cs self) \<le> state (task_run e cs' (task_run e cs self))"
      by (simp add: task_run_forward)
    from a have 2: "state (task_run e cs' (task_run e cs self))
        \<le> state (task_run e cs'' (task_run e cs' (task_run e cs self)))"
      by (simp add: task_run_forward)
    from 1 2 show ?thesis
      by (simp add: task_run_append)
  qed
  from init init' step run show ?thesis
    by (simp add: state_handle_frame)
qed

lemma example_started:
  "fst (initialize example_platform 10 (ButtonDocking_init example_armed)) = example_task \<and>
   snd (initialize example_platform 10 (ButtonDocking_init example_armed)) = None"
  by (simp add: initialize_def stop_thrusters_def set_rc_inputs_def set_rc_input_pwms_def
      is_connected_def is_armed_def input_pwm_def fadd_def fmul_def py_round_def Let_def
      emit_def set_mode_def ButtonDocking_init_def example_platform_def example_armed_def
      example_task_def eval_nat_numeral)

lemma example_phases:
  "map (\<lambda>cs. state (task_run example_platform cs example_task))
     [[Handle_frame example_far, Periodic],
      [Handle_frame example_far, Periodic, Handle_frame example_near, Periodic],
      [Handle_frame example_far, Periodic, Handle_frame example_near, Periodic, Periodic],
      [Handle_frame example_far, Periodic, Handle_frame example_near, Periodic, Periodic,
       Handle_frame example_close, Periodic],
      [Handle_frame example_far, Periodic, Handle_frame example_near, Periodic, Periodic,
       Handle_frame example_close, Periodic, Handle_frame example_far, Periodic]] =
   [0, 1, 1, 2, 2]"
  by (simp add: periodic_def periodic_scale_def start_reached_def stop_reached_def
      steer_inputs_def vertical_move_def horizontal_move_def vehicle_set_rc_inputs_def
      handle_frame_def py_int_def
      START_WIDTH_FRACTION_def START_HEIGHT_FRACTION_def STOP_WIDTH_FRACTION_def
      STOP_HEIGHT_FRACTION_def CRAWL_SPEED_def FORWARD_SPEED_def RAM_SPEED_def
      TRANSLATION_SENSITIVITY_def ROTATIONAL_SENSITIVITY_def
      set_rc_inputs_def set_rc_input_pwms_def is_connected_def is_armed_def
      input_pwm_def fadd_def fsub_def fmul_def fdiv_def py_round_def Let_def emit_def set_mode_def
      example_far_def example_near_def example_close_def
      example_platform_def example_task_def example_armed_def eval_nat_numeral)

theorem phase_forward_witness:
  "state (fst (initialize example_platform 10 (ButtonDocking_init example_armed))) = 0 \<and>
   list_all (\<lambda>c. \<not> is_initialize c)
     ([Handle_frame example_far, Periodic] @ [Handle_frame example_near, Periodic] @
      [Periodic, Handle_frame example_close, Periodic, Handle_frame example_far, Periodic]) \<and>
   state (task_run example_platform [Handle_frame example_far, Periodic] example_task) = 0 \<and>
   state (task_run example_platform
     ([Handle_frame example_far, Periodic] @ [Handle_frame example_near, Periodic])
     example_task) = 1 \<and>
   state (task_run example_platform
     ([Handle_frame example_far, Periodic] @ [Handle_frame example_near, Periodic] @
      [Periodic, Handle_frame example_close, Periodic, Handle_frame example_far, Periodic])
     example_task) = 2"
  using phase_forward [of example_platform 10 example_armed example_task example_far
      "[Handle_frame example_far, Periodic]" "[Handle_frame example_near, Periodic]"
      "[Periodic, Handle_frame example_close, Periodic, Handle_frame example_far, Periodic]"]
    example_phases
  by simp

subsection \<open>The link, the relays and validation\<close>

lemma emit_fields:
  "connected (emit x self) = connected self"
  "armed (emit x self) = armed self"
  "last_msg_time (emit x self) = last_msg_time self"
  "effects (emit x self) = effects self @ [x]"
  by (simp_all add: emit_def)

lemma recv_vfr_hud_fields:
  "connected (recv_vfr_hud hud self) = connected self"
  "armed (recv_vfr_hud hud self) = armed self"
  "last_msg_time (recv_vfr_hud hud self) = last_msg_time self"
  "count_list (effects (recv_vfr_hud hud self)) disconnected_signal_emit =
     count_list (effects self) disconnected_signal_emit"
  by (simp_all add: recv_vfr_hud_def emit_def split: option.split)

lemma update_silent_disconnected:
  "\<not> connected self \<Longrightarrow> update e None hud now self = (recv_vfr_hud hud self, None)"
  by (simp add: update_def heartbeat_missing_def)

lemma silent_polls_disconnected:
  "\<not> connected self \<Longrightarrow>
   \<not> connected (vehicle_run e (map silent_poll ps) self) \<and>
   count_list (effects (vehicle_run e (map silent_poll ps) self)) disconnected_signal_emit =
     count_list (effects self) disconnected_signal_emit"
  by (induction ps arbitrary: self)
    (simp_all add: silent_poll_def update_silent_disconnected recv_vfr_hud_fields)

text \<open>
  C5, as the code has it. On a connected object whose last heartbeat came at \<open>t\<close>, a poll
  that finds no heartbeat at a time \<open>now\<close> with \<open>now - t > 2\<close> (as computed) sets
  \<open>connected\<close> to false and emits the disconnect signal once; any further polls without a
  heartbeat, at any times, emit no more. A poll with \<open>now - t \<le> 2\<close>, in particular at
  exactly 2 seconds, leaves the object connected and emits no disconnect signal.
\<close>

theorem heartbeat_timeout_edge:
  assumes "connected self" and "last_msg_time self = Some t"
  shows "(TIMEOUT < fsub e now t \<longrightarrow>
            update e None hud now self =
              (recv_vfr_hud hud
                 (self\<lparr>effects := effects self @ [disconnected_signal_emit],
                    connected := False\<rparr>), None) \<and>
            \<not> connected (vehicle_run e (map silent_poll ((hud, now) # ps)) self) \<and>
            count_list (effects (vehicle_run e (map silent_poll ((hud, now) # ps)) self))
                disconnected_signal_emit =
              count_list (effects self) disconnected_signal_emit + 1) \<and>
         (fsub e now t \<le> TIMEOUT \<longrightarrow> update e None hud now self = (recv_vfr_hud hud self, None))"
proof (intro conjI impI)
  assume late: "TIMEOUT < fsub e now t"
  let ?s = "self\<lparr>effects := effects self @ [disconnected_signal_emit], connected := False\<rparr>"
  from late assms show first: "update e None hud now self = (recv_vfr_hud hud ?s, None)"
    by (simp add: update_def heartbeat_missing_def emit_def)
  have off: "\<not> connected (recv_vfr_hud hud ?s)"
    by (simp add: recv_vfr_hud_fields)
  have run: "vehicle_run e (map silent_poll ((hud, now) # ps)) self =
      vehicle_run e (map silent_poll ps) (recv_vfr_hud hud ?s)"
    using first by (simp add: silent_poll_def)
  from silent_polls_disconnected [OF off, of e ps] run
  show "\<not> connected (vehicle_run e (map silent_poll ((hud, now) # ps)) self)"
    by simp
  from silent_polls_disconnected [OF off, of e ps] run
  show "count_list (effects (vehicle_run e (map silent_poll ((hud, now) # ps)) self))
                disconnected_signal_emit =
              count_list (effects self) disconnected_signal_emit + 1"
    by (simp add: recv_vfr_hud_fields)
next
  assume "fsub e now t \<le> TIMEOUT"
  with assms show "update e None hud now self = (recv_vfr_hud hud self, None)"
    by (simp add: update_def heartbeat_missing_def)
qed

theorem heartbeat_timeout_edge_witness:
  "connected example_armed \<and> last_msg_time example_armed = Some 0 \<and>
   TIMEOUT < fsub example_platform (21 / 10) 0 \<and>
   update example_platform None None (21 / 10) example_armed =
     (recv_vfr_hud None
        (example_armed\<lparr>effects := effects example_armed @ [disconnected_signal_emit],
           connected := False\<rparr>), None) \<and>
   count_list (effects (vehicle_run example_platform
       (map silent_poll [(None, 21 / 10), (Some 3, 4), (None, 5)]) example_armed))
     disconnected_signal_emit = count_list (effects example_armed) disconnected_signal_emit + 1 \<and>
   fsub example_platform (19 / 10) 0 \<le> TIMEOUT \<and>
   update example_platform None None (19 / 10) example_armed =
     (recv_vfr_hud None example_armed, None)"
proof -
  have c: "connected example_armed" and t: "last_msg_time example_armed = Some 0"
    by (simp_all add: example_armed_def)
  have late: "TIMEOUT < fsub example_platform (21 / 10) 0"
    and early: "fsub example_platform (19 / 10) 0 \<le> TIMEOUT"
    by (simp_all add: example_platform_def fsub_def TIMEOUT_def)
  show ?thesis
    using c t late early
      heartbeat_timeout_edge [OF c t, of example_platform "21 / 10" None "[(Some 3, 4), (None, 5)]"]
      heartbeat_timeout_edge [OF c t, of example_platform "19 / 10" None "[]"]
    by blast
qed

theorem heartbeat_timeout_exact_counterexample:
  "connected example_armed \<and> last_msg_time example_armed = Some 0 \<and>
   fsub example_platform 2 0 = TIMEOUT \<and>
   update example_platform None None 2 example_armed = (example_armed, None)"
  by (simp add: update_def heartbeat_missing_def recv_vfr_hud_def example_armed_def
      example_platform_def fsub_def TIMEOUT_def)

lemma effects_set_relays_off:
  "set_relays_off rs self =
     self\<lparr>effects := effects self @
       (if connected self then map (\<lambda>r. relay_task r False) rs else [])\<rparr>"
  by (induction rs arbitrary: self)
    (simp_all add: set_relay_def is_connected_def is_armed_def emit_def)

text \<open>
  C6, as the code has it. \<open>disarm\<close> first runs \<open>turn_off_relays\<close> and then sends the
  disarm command. On a connected object this dispatches one relay-off task for every
  relay, in order, all before the disarm command; on a disconnected object \<open>set_relay\<close>
  returns at its guard, so no relay task is dispatched and the disarm command is all that
  is sent. No other field changes.
\<close>

theorem disarm_order:
  "disarm e self =
     self\<lparr>effects := effects self @
       (if connected self then map (\<lambda>relay. relay_task relay False) (Relay_members e) else []) @
       [arducopter_disarm]\<rparr>"
  by (simp add: disarm_def turn_off_relays_def effects_set_relays_off emit_def)

theorem disarm_order_witness:
  "disarm example_platform example_armed =
     example_armed\<lparr>effects := effects example_armed @
       [relay_task 1 False, relay_task 2 False, relay_task 3 False, arducopter_disarm]\<rparr>"
  using disarm_order [of example_platform example_armed]
  by (simp add: example_platform_def example_armed_def)

theorem disarm_disconnected_counterexample:
  "Relay_members example_platform = [1, 2, 3] \<and>
   disarm example_platform VehicleControl_init =
     VehicleControl_init\<lparr>effects := [arducopter_disarm]\<rparr>"
  by (simp add: disarm_def turn_off_relays_def set_relay_def is_connected_def emit_def
      example_platform_def VehicleControl_init_def)

text \<open>
  C7. \<open>set_relay\<close> changes nothing when the object is disconnected, and nothing when it is
  asked to enable a relay while disarmed. On a connected object, disabling a relay is
  dispatched whatever the arm state, and so is enabling one while armed.
\<close>

theorem set_relay_gate:
  "(\<not> connected self \<longrightarrow> set_relay self relay st = self) \<and>
   (\<not> armed self \<longrightarrow> set_relay self relay True = self) \<and>
   (connected self \<longrightarrow>
      set_relay self relay False = self\<lparr>effects := effects self @ [relay_task relay False]\<rparr>) \<and>
   (connected self \<and> armed self \<longrightarrow>
      set_relay self relay st = self\<lparr>effects := effects self @ [relay_task relay st]\<rparr>)"
  by (simp add: set_relay_def is_connected_def is_armed_def emit_def)

theorem set_relay_gate_witness:
  "set_relay VehicleControl_init 2 False = VehicleControl_init \<and>
   set_relay example_disarmed 2 True = example_disarmed \<and>
   set_relay example_disarmed 2 False =
     example_disarmed\<lparr>effects := effects example_disarmed @ [relay_task 2 False]\<rparr> \<and>
   set_relay example_armed 2 True =
     example_armed\<lparr>effects := effects example_armed @ [relay_task 2 True]\<rparr>"
  using set_relay_gate [of VehicleControl_init 2 False]
    set_relay_gate [of example_disarmed 2 True]
    set_relay_gate [of example_armed 2 True]
  by (simp add: VehicleControl_init_def example_disarmed_def example_armed_def)

text \<open>
  C8, as the code has it. On a connected and armed object, a map whose first bad entry
  has a channel id below 1 or above 18 (0, 19 and -1 among them) is rejected with the
  channel \<^verbatim>\<open>ValueError\<close>; one whose first bad entry has a channel id in 1..18 and a PWM
  below 1100 or above 1900 is rejected with the PWM \<^verbatim>\<open>ValueError\<close>; a rejected call sends
  nothing. A map with every id in 1..18 (1 and 18 among them) and every PWM in
  [1100, 1900] is accepted and sent as one 18-slot command. On a disconnected or disarmed
  object nothing is checked.
\<close>

theorem set_rc_input_pwms_validation:
  assumes "connected self" and "armed self"
    and "list_all (\<lambda>(c, p). 1 \<le> c \<and> c \<le> 18 \<and> 1100 \<le> p \<and> p \<le> 1900) ok"
  shows "(channel_id < 1 \<or> 18 < channel_id \<longrightarrow>
            set_rc_input_pwms self (ok @ (channel_id, pwm) # rest) =
              (self, Some (ChannelIdValueError channel_id))) \<and>
         (1 \<le> channel_id \<and> channel_id \<le> 18 \<and> (pwm < 1100 \<or> 1900 < pwm) \<longrightarrow>
            set_rc_input_pwms self (ok @ (channel_id, pwm) # rest) =
              (self, Some (PwmValueError pwm))) \<and>
         (\<exists>rc. length rc = 18 \<and>
            set_rc_input_pwms self ok =
              (self\<lparr>effects := effects self @ [rc_channels_override_send rc]\<rparr>, None))"
proof -
  let ?rc = "fold (\<lambda>(c, p) rc. rc[nat (c - 1) := p]) ok (replicate 18 65535)"
  have "length ?rc = 18"
    by (simp add: length_fold_upd)
  moreover have "set_rc_input_pwms self ok =
      (self\<lparr>effects := effects self @ [rc_channels_override_send ?rc]\<rparr>, None)"
    using assms
    by (simp add: set_rc_input_pwms_def is_connected_def is_armed_def fill_valid emit_def)
  ultimately have "\<exists>rc. length rc = 18 \<and>
      set_rc_input_pwms self ok =
        (self\<lparr>effects := effects self @ [rc_channels_override_send rc]\<rparr>, None)"
    by blast
  moreover have "channel_id < 1 \<or> 18 < channel_id \<longrightarrow>
      set_rc_input_pwms self (ok @ (channel_id, pwm) # rest) =
        (self, Some (ChannelIdValueError channel_id))"
    using assms
    by (simp add: set_rc_input_pwms_def is_connected_def is_armed_def fill_first_invalid)
  moreover have "1 \<le> channel_id \<and> channel_id \<le> 18 \<and> (pwm < 1100 \<or> 1900 < pwm) \<longrightarrow>
      set_rc_input_pwms self (ok @ (channel_id, pwm) # rest) =
        (self, Some (PwmValueError pwm))"
    using assms
    by (auto simp add: set_rc_input_pwms_def is_connected_def is_armed_def fill_first_invalid)
  ultimately show ?thesis
    by blast
qed

theorem set_rc_input_pwms_validation_witness:
  "set_rc_input_pwms example_armed [(0, 1500)] = (example_armed, Some (ChannelIdValueError 0)) \<and>
   set_rc_input_pwms example_armed [(19, 1500)] = (example_armed, Some (ChannelIdValueError 19)) \<and>
   set_rc_input_pwms example_armed [(- 1, 1500)] =
     (example_armed, Some (ChannelIdValueError (- 1))) \<and>
   set_rc_input_pwms example_armed [(1, 1099)] = (example_armed, Some (PwmValueError 1099)) \<and>
   set_rc_input_pwms example_armed [(18, 1901)] = (example_armed, Some (PwmValueError 1901)) \<and>
   set_rc_input_pwms example_armed [(1, 1100), (18, 1900)] =
     (example_armed\<lparr>effects := effects example_armed @
        [rc_channels_override_send
          [1100, 65535, 65535, 65535, 65535, 65535, 65535, 65535, 65535,
           65535, 65535, 65535, 65535, 65535, 65535, 65535, 65535, 1900]]\<rparr>, None)"
  using set_rc_input_pwms_validation [of example_armed "[]" 0 1500 "[]"]
    set_rc_input_pwms_validation [of example_armed "[]" 19 1500 "[]"]
    set_rc_input_pwms_validation [of example_armed "[]" "- 1" 1500 "[]"]
    set_rc_input_pwms_validation [of example_armed "[]" 1 1099 "[]"]
    set_rc_input_pwms_validation [of example_armed "[]" 18 1901 "[]"]
    set_rc_input_pwms_validation [of example_armed "[(1, 1100), (18, 1900)]" 0 0 "[]"]
  by (simp add: example_armed_def set_rc_input_pwms_def is_connected_def is_armed_def emit_def
      eval_nat_numeral)

theorem set_rc_input_pwms_unchecked_counterexample:
  "set_rc_input_pwms VehicleControl_init [(0, 1500)] = (VehicleControl_init, None) \<and>
   set_rc_input_pwms VehicleControl_init [(19, 1500)] = (VehicleControl_init, None) \<and>
   set_rc_input_pwms VehicleControl_init [(- 1, 1500)] = (VehicleControl_init, None) \<and>
   set_rc_input_pwms example_disarmed [(1, 5000)] = (example_disarmed, None)"
  by (simp add: set_rc_input_pwms_def is_connected_def is_armed_def VehicleControl_init_def
      example_disarmed_def)

text \<open>
  C9, as the code has it. On a platform with a float rounding the mapping from a value to
  its PWM is monotone: \<open>a < b\<close> implies \<open>pwm a \<le> pwm b\<close>, and \<open>pwm a < pwm b\<close> implies
  \<open>a < b\<close>. The converse of the first fails, since rounding sends different values, and
  equal ones, to the same PWM.
\<close>

theorem input_pwm_monotone:
  assumes "float_rounding (fl e)"
  shows "(a < b \<longrightarrow> input_pwm e a \<le> input_pwm e b) \<and>
         (input_pwm e a < input_pwm e b \<longrightarrow> a < b)"
proof -
  have "a < b \<longrightarrow> input_pwm e a \<le> input_pwm e b"
    using input_pwm_mono [OF assms, of a b] by simp
  moreover have "input_pwm e a < input_pwm e b \<longrightarrow> a < b"
    using input_pwm_mono [OF assms, of b a] by (cases "a < b") simp_all
  ultimately show ?thesis
    by blast
qed

theorem input_pwm_monotone_witness:
  "float_rounding (fl example_platform) \<and>
   (1 / 4 :: real) < 1 / 2 \<and>
   input_pwm example_platform (1 / 4) = 1600 \<and> input_pwm example_platform (1 / 2) = 1700 \<and>
   input_pwm example_platform (1 / 4) \<le> input_pwm example_platform (1 / 2)"
  using input_pwm_monotone [OF float_rounding_example, of "1 / 4" "1 / 2"] float_rounding_example
  by (simp add: input_pwm_def fadd_def fmul_def py_round_def Let_def example_platform_def)

theorem input_pwm_iff_counterexample:
  "\<not> ((0 :: real) < 0 \<longleftrightarrow> input_pwm example_platform 0 \<le> input_pwm example_platform 0) \<and>
   - 1 \<le> (1 / 1000 :: real) \<and> (1 / 1000 :: real) \<le> 1 \<and>
   \<not> ((1 / 1000 :: real) < 0 \<longleftrightarrow>
        input_pwm example_platform (1 / 1000) \<le> input_pwm example_platform 0)"
  by (simp add: input_pwm_def fadd_def fmul_def py_round_def Let_def example_platform_def)

lemma heartbeat_received_seen:
  "connected (fst (heartbeat_received e hb now self)) \<and>
   last_msg_time (fst (heartbeat_received e hb now self)) = Some now \<and>
   snd (heartbeat_received e hb now self) \<noteq> Some (TypeError ''-'')"
  by (simp add: heartbeat_received_def Let_def emit_fields split: option.split)

lemma heartbeat_missing_seen:
  "heartbeat_seen self \<Longrightarrow>
   heartbeat_seen (fst (heartbeat_missing e now self)) \<and> snd (heartbeat_missing e now self) = None"
  by (auto simp add: heartbeat_missing_def heartbeat_seen_def emit_fields split: option.split)

lemma update_seen:
  "heartbeat_seen self \<Longrightarrow>
   heartbeat_seen (fst (update e msg hud now self)) \<and>
   snd (update e msg hud now self) \<noteq> Some (TypeError ''-'')"
proof (cases msg)
  case None
  assume "heartbeat_seen self"
  then have "heartbeat_seen (fst (heartbeat_missing e now self)) \<and>
      snd (heartbeat_missing e now self) = None"
    by (rule heartbeat_missing_seen)
  with None show ?thesis
    by (cases "heartbeat_missing e now self")
      (auto simp add: update_def heartbeat_seen_def recv_vfr_hud_fields split: option.split)
next
  case (Some hb)
  have "connected (fst (heartbeat_received e hb now self)) \<and>
      last_msg_time (fst (heartbeat_received e hb now self)) = Some now \<and>
      snd (heartbeat_received e hb now self) \<noteq> Some (TypeError ''-'')"
    by (rule heartbeat_received_seen)
  with Some show ?thesis
    by (cases "heartbeat_received e hb now self")
      (auto simp add: update_def heartbeat_seen_def recv_vfr_hud_fields split: option.split)
qed

lemma set_rc_input_pwms_link:
  "connected (fst (set_rc_input_pwms self pwms)) = connected self"
  "last_msg_time (fst (set_rc_input_pwms self pwms)) = last_msg_time self"
  by (simp_all add: set_rc_input_pwms_def emit_fields split: sum.split)

lemma set_rc_inputs_link:
  "connected (fst (set_rc_inputs e self vals)) = connected self"
  "last_msg_time (fst (set_rc_inputs e self vals)) = last_msg_time self"
  by (simp_all add: set_rc_inputs_def set_rc_input_pwms_link split: sum.split)

lemma set_mode_link:
  "connected (set_mode e self name) = connected self"
  "last_msg_time (set_mode e self name) = last_msg_time self"
  by (simp_all add: set_mode_def emit_fields split: option.split)

lemma set_relay_link:
  "connected (set_relay self relay st) = connected self"
  "last_msg_time (set_relay self relay st) = last_msg_time self"
  by (simp_all add: set_relay_def emit_fields)

lemma set_relays_off_link:
  "connected (set_relays_off rs self) = connected self"
  "last_msg_time (set_relays_off rs self) = last_msg_time self"
  by (induction rs arbitrary: self) (simp_all add: set_relay_link)

lemma vehicle_step_seen:
  "heartbeat_seen self \<Longrightarrow> heartbeat_seen (vehicle_step e c self)"
proof (cases c)
  case (Update msg hud now)
  assume "heartbeat_seen self"
  with Update show ?thesis by (simp add: update_seen)
qed (simp_all add: heartbeat_seen_def arm_def disarm_def turn_off_relays_def stop_thrusters_def
    emit_fields set_rc_input_pwms_link set_rc_inputs_link set_mode_link set_relay_link
    set_relays_off_link)

lemma vehicle_run_seen:
  "heartbeat_seen self \<Longrightarrow> heartbeat_seen (vehicle_run e cs self)"
  by (induction cs arbitrary: self) (simp_all add: vehicle_step_seen)

text \<open>
  C10. A connected object has a heartbeat time. This holds of a constructed object, every
  \<open>update\<close> preserves it, and so it holds after any sequence of calls of the modelled
  methods; in every such state \<open>update\<close> never subtracts from an unset
  \<open>last_msg_time\<close>, that is, never raises the \<^verbatim>\<open>TypeError\<close> of the subtraction.
\<close>

theorem heartbeat_seen_invariant:
  "heartbeat_seen VehicleControl_init \<and>
   (heartbeat_seen self \<longrightarrow> heartbeat_seen (fst (update e msg hud now self))) \<and>
   heartbeat_seen (vehicle_run e cs VehicleControl_init) \<and>
   snd (update e msg hud now (vehicle_run e cs VehicleControl_init)) \<noteq> Some (TypeError ''-'')"
proof -
  have init: "heartbeat_seen VehicleControl_init"
    by (simp add: heartbeat_seen_def VehicleControl_init_def)
  then have run: "heartbeat_seen (vehicle_run e cs VehicleControl_init)"
    by (rule vehicle_run_seen)
  with init update_seen [of self e msg hud now]
    update_seen [of "vehicle_run e cs VehicleControl_init" e msg hud now]
  show ?thesis
    by blast
qed

theorem heartbeat_seen_invariant_witness:
  "heartbeat_seen example_armed \<and>
   heartbeat_seen (fst (update example_platform None None 3 example_armed)) \<and>
   vehicle_run example_platform
     [Update (Some \<lparr>base_mode = Some 209, custom_mode = Some 19\<rparr>) None 0]
     VehicleControl_init = example_armed \<and>
   snd (update example_platform None None 3
     (vehicle_run example_platform
        [Update (Some \<lparr>base_mode = Some 209, custom_mode = Some 19\<rparr>) None 0]
        VehicleControl_init)) \<noteq> Some (TypeError ''-'')"
proof -
  have r: "vehicle_run example_platform
     [Update (Some \<lparr>base_mode = Some 209, custom_mode = Some 19\<rparr>) None 0]
     VehicleControl_init = example_armed"
    by (simp add: example_armed_reached)
  have s: "heartbeat_seen example_armed"
    by (simp add: heartbeat_seen_def example_armed_def)
  from r s
    heartbeat_seen_invariant [of example_armed example_platform None None 3
      "[Update (Some \<lparr>base_mode = Some 209, custom_mode = Some 19\<rparr>) None 0]"]
  show ?thesis
    by (simp del: vehicle_run.simps)
qed

end
